theory Spec2Isabelle
  imports Main
begin

section \<open>The table component of the memo content renderer\<close>

text \<open>
  Source: \<^verbatim>\<open>web/src/components/MemoContent/Table.tsx\<close>.  The component is a function
  from its props to a tree of React elements.  The element tree is modelled as a datatype,
  the props as records, and \<^verbatim>\<open>Array.prototype.map\<close> with its two-argument callback as
  a map over the enumerated list.
\<close>

subsection \<open>Input data\<close>

text \<open>
  \<^verbatim>\<open>Node\<close> and \<^verbatim>\<open>TableNode_Row\<close> are imported from the generated protobuf module, which
  is not among the sources.  The component reads only \<^verbatim>\<open>h.type\<close> of a node (interpolated
  into a template literal, hence taken as the text it interpolates to) and \<^verbatim>\<open>row.cells\<close> of
  a row; everything else a node carries is the type parameter \<open>'p\<close>.
\<close>

type_synonym NodeType = string

record 'p Node =
  type :: NodeType
  payload :: 'p

record 'p TableNode_Row =
  cells :: "'p Node list"

record 'p Props =
  index :: string
  header :: "'p Node list"
  rows :: "'p TableNode_Row list"

subsection \<open>Output: React elements\<close>

text \<open>
  A host element \<^verbatim>\<open><tag key=... className=...>children</tag>\<close> is \<open>Elem\<close>; React stores a
  key as a string (\<^verbatim>\<open>'' + key\<close>), so the numeric keys \<^verbatim>\<open>key={i}\<close> appear as \<open>String i\<close>.
  \<^verbatim>\<open><Renderer key=... index=... node=... />\<close> is an element of the imported component
  \<^verbatim>\<open>Renderer\<close>, kept with its three attributes; the node is passed by reference, unchanged.
\<close>

datatype 'p jsx =
    Elem (tag: string) (key: "string option") (className: string) (children: "'p jsx list")
  | Renderer (rkey: string) (rindex: string) (node: "'p Node")

subsection \<open>JavaScript primitives used by the component\<close>

text \<open>\<^verbatim>\<open>String(i)\<close> for an array index \<open>i\<close>: its decimal digits, most significant first.\<close>

definition digit :: "nat \<Rightarrow> char" where
  "digit d = char_of (48 + d)"

function String :: "nat \<Rightarrow> string" where
  "String n = (if n < 10 then [digit n] else String (n div 10) @ [digit (n mod 10)])"
  by pat_completeness auto
termination
  by (relation "measure id") auto

declare String.simps [simp del]

text \<open>\<^verbatim>\<open>xs.map((x, i) => f)\<close>: the callback receives the element and its position.\<close>

definition Array_map :: "('a \<Rightarrow> nat \<Rightarrow> 'b) \<Rightarrow> 'a list \<Rightarrow> 'b list" where
  "Array_map f xs = map (\<lambda>(i, x). f x i) (enumerate 0 xs)"

subsection \<open>The component\<close>

definition Table :: "'p Props \<Rightarrow> 'p jsx" where
  "Table props =
     Elem ''table'' None
       ''w-auto max-w-full border border-[var(--color-border)] divide-y divide-zinc-200 dark:divide-zinc-600''
       [Elem ''thead'' None
          ''text-sm font-medium leading-5 text-left text-[var(--color-foreground)]''
          [Elem ''tr'' None ''divide-x divide-zinc-200 dark:divide-zinc-600''
             (Array_map
                (\<lambda>h i. Elem ''th'' (Some (String i)) ''py-1 px-2''
                   [Renderer (type h @ ''-'' @ String i) (String i) h])
                (header props))],
        Elem ''tbody'' None
          ''divide-y divide-zinc-200 dark:divide-zinc-600 text-sm leading-5 text-left text-[var(--color-foreground)]''
          (Array_map
             (\<lambda>row i. Elem ''tr'' (Some (String i)) ''divide-x divide-zinc-200 dark:divide-zinc-600''
                (Array_map
                   (\<lambda>r j. Elem ''td'' (Some (String j)) ''py-1 px-2''
                      [Renderer (type r @ ''-'' @ String i @ ''-'' @ String j) (String j) r])
                   (cells row)))
             (rows props))]"

subsection \<open>Observing the element tree\<close>

text \<open>
  The claims speak of the header group, the body group, rows, cells and the indices and
  keys handed to \<^verbatim>\<open>Renderer\<close>.  These are read off the element tree: the rows of a
  group are the children of the \<^verbatim>\<open>thead\<close> (\<^verbatim>\<open>tbody\<close>) element, the cells of a row are its
  children, and \<open>renderers\<close> lists the \<^verbatim>\<open>Renderer\<close> elements below an element in
  document order.
\<close>

fun kids :: "'p jsx \<Rightarrow> 'p jsx list" where
  "kids (Elem t k c cs) = cs"
| "kids (Renderer k i n) = []"

fun is_tag :: "string \<Rightarrow> 'p jsx \<Rightarrow> bool" where
  "is_tag s (Elem t k c cs) = (t = s)"
| "is_tag s (Renderer k i n) = False"

definition group :: "string \<Rightarrow> 'p jsx \<Rightarrow> 'p jsx list" where
  "group s t = concat (map kids (filter (is_tag s) (kids t)))"

definition header_group :: "'p jsx \<Rightarrow> 'p jsx list" where
  "header_group t = group ''thead'' t"

definition body_group :: "'p jsx \<Rightarrow> 'p jsx list" where
  "body_group t = group ''tbody'' t"

fun renderers :: "'p jsx \<Rightarrow> 'p jsx list" where
  "renderers (Elem t k c cs) = concat (map renderers cs)"
| "renderers (Renderer k i n) = [Renderer k i n]"

text \<open>Names for the three arrow functions of the component, as they occur in \<open>Table\<close>.\<close>

abbreviation th_cell :: "'p Node \<Rightarrow> nat \<Rightarrow> 'p jsx" where
  "th_cell h i \<equiv>
     Elem ''th'' (Some (String i)) ''py-1 px-2''
       [Renderer (type h @ ''-'' @ String i) (String i) h]"

abbreviation td_cell :: "nat \<Rightarrow> 'p Node \<Rightarrow> nat \<Rightarrow> 'p jsx" where
  "td_cell i r j \<equiv>
     Elem ''td'' (Some (String j)) ''py-1 px-2''
       [Renderer (type r @ ''-'' @ String i @ ''-'' @ String j) (String j) r]"

abbreviation tr_row :: "'p TableNode_Row \<Rightarrow> nat \<Rightarrow> 'p jsx" where
  "tr_row row i \<equiv>
     Elem ''tr'' (Some (String i)) ''divide-x divide-zinc-200 dark:divide-zinc-600''
       (Array_map (td_cell i) (cells row))"

subsection \<open>The component with its effect on the input\<close>

text \<open>
  JavaScript objects and arrays are mutable, so a render pass could change the tree it is
  given.  To state that it does not, the component is written a second time with the
  input threaded through: every callback returns its element together with the node (or
  row) as the callback leaves it, \<open>map_run\<close> is \<^verbatim>\<open>Array.prototype.map\<close> collecting both, and
  \<open>Table_run\<close> returns the element tree together with the props as they are after the
  pass.  The source reads \<^verbatim>\<open>h.type\<close>, \<^verbatim>\<open>r.type\<close> and \<^verbatim>\<open>row.cells\<close>, calls \<^verbatim>\<open>map\<close> and
  builds elements; it contains no assignment and no mutating method call, so each
  callback hands its argument back as it received it.
\<close>

fun map_run :: "('a \<Rightarrow> nat \<Rightarrow> 'b \<times> 'a) \<Rightarrow> nat \<Rightarrow> 'a list \<Rightarrow> 'b list \<times> 'a list" where
  "map_run f i [] = ([], [])"
| "map_run f i (x # xs) =
     (let (y, x') = f x i; (ys, xs') = map_run f (Suc i) xs in (y # ys, x' # xs'))"

definition Table_run :: "'p Props \<Rightarrow> 'p jsx \<times> 'p Props" where
  "Table_run props =
     (let (ths, header') =
            map_run
              (\<lambda>h i. (Elem ''th'' (Some (String i)) ''py-1 px-2''
                         [Renderer (type h @ ''-'' @ String i) (String i) h], h))
              0 (header props);
          (trs, rows') =
            map_run
              (\<lambda>row i.
                 let (tds, cells') =
                       map_run
                         (\<lambda>r j. (Elem ''td'' (Some (String j)) ''py-1 px-2''
                                    [Renderer (type r @ ''-'' @ String i @ ''-'' @ String j)
                                       (String j) r], r))
                         0 (cells row)
                 in (Elem ''tr'' (Some (String i))
                       ''divide-x divide-zinc-200 dark:divide-zinc-600'' tds,
                     row\<lparr>cells := cells'\<rparr>))
              0 (rows props)
      in (Elem ''table'' None
            ''w-auto max-w-full border border-[var(--color-border)] divide-y divide-zinc-200 dark:divide-zinc-600''
            [Elem ''thead'' None
               ''text-sm font-medium leading-5 text-left text-[var(--color-foreground)]''
               [Elem ''tr'' None ''divide-x divide-zinc-200 dark:divide-zinc-600'' ths],
             Elem ''tbody'' None
               ''divide-y divide-zinc-200 dark:divide-zinc-600 text-sm leading-5 text-left text-[var(--color-foreground)]''
               trs],
          props\<lparr>header := header', rows := rows'\<rparr>))"

subsection \<open>The node renderer\<close>

text \<open>
  Modelled from the spec: the node renderer (the imported \<^verbatim>\<open>./Renderer\<close>, the spec's
  \<^verbatim>\<open>render(node, index)\<close>) and the node tree it walks are not among the sources.  Following
  sections 3 and 4.1 of the specification: a node is of a kind and carries the payload of
  its kind; kinds without child nodes (text, line break, and any unrecognised kind, which
  the fallback renders from its raw content) are \<open>Leaf\<close>; kinds whose payload holds child
  nodes (bold, italic, link) are \<open>Composite\<close>; a table carries a header and rows of cells.
  \<open>render\<close> produces one output for the node, annotated with its index, and renders each
  child with the index \<^verbatim>\<open>parentIndex + "." + childPosition\<close>.  A table's header cells are
  the children of its group 0 and the cells of row \<open>r\<close> the children of row \<open>r\<close> of its
  group 1, so a body cell's index is derived from both \<open>r\<close> and \<open>c\<close>.
\<close>

datatype DocNode =
    Leaf NodeType string
  | Composite NodeType "DocNode list"
  | TableNode "DocNode list" "DocNode list list"

datatype Rendered =
    RLeaf string NodeType string
  | RComposite string NodeType "Rendered list"
  | RTable string "Rendered list" "Rendered list list"

definition compose :: "string \<Rightarrow> nat \<Rightarrow> string" where
  "compose parentIndex childPosition = parentIndex @ ''.'' @ String childPosition"

fun render :: "DocNode \<Rightarrow> string \<Rightarrow> Rendered"
  and render_children :: "DocNode list \<Rightarrow> string \<Rightarrow> nat \<Rightarrow> Rendered list"
  and render_rows :: "DocNode list list \<Rightarrow> string \<Rightarrow> nat \<Rightarrow> Rendered list list" where
  "render (Leaf k s) ix = RLeaf ix k s"
| "render (Composite k cs) ix = RComposite ix k (render_children cs ix 0)"
| "render (TableNode h rs) ix =
     RTable ix (render_children h (compose ix 0) 0) (render_rows rs (compose ix 1) 0)"
| "render_children [] ix pos = []"
| "render_children (c # cs) ix pos =
     render c (compose ix pos) # render_children cs ix (Suc pos)"
| "render_rows [] ix r = []"
| "render_rows (row # rs) ix r =
     render_children row (compose ix r) 0 # render_rows rs ix (Suc r)"

fun node_count :: "DocNode \<Rightarrow> nat" where
  "node_count (Leaf k s) = 1"
| "node_count (Composite k cs) = 1 + sum_list (map node_count cs)"
| "node_count (TableNode h rs) =
     1 + sum_list (map node_count h) + sum_list (map (\<lambda>row. sum_list (map node_count row)) rs)"

fun output_count :: "Rendered \<Rightarrow> nat" where
  "output_count (RLeaf ix k s) = 1"
| "output_count (RComposite ix k cs) = 1 + sum_list (map output_count cs)"
| "output_count (RTable ix h rs) =
     1 + sum_list (map output_count h) +
     sum_list (map (\<lambda>row. sum_list (map output_count row)) rs)"

subsection \<open>Example tables\<close>

text \<open>
  The ragged table of the specification (three header cells, a row of two cells and a row
  of four), a table whose sibling cells are identical, and the empty table.
\<close>

definition text_node :: "string \<Rightarrow> string Node" where
  "text_node s = \<lparr>type = ''TEXT'', payload = s\<rparr>"

definition ragged_table :: "string Props" where
  "ragged_table =
     \<lparr>index = ''7'',
      header = [text_node ''A'', text_node ''B'', text_node ''C''],
      rows = [\<lparr>cells = [text_node ''x'', text_node ''y'']\<rparr>,
              \<lparr>cells = [text_node ''1'', text_node ''2'', text_node ''3'', text_node ''4'']\<rparr>]\<rparr>"

definition twin_table :: "string Props" where
  "twin_table =
     \<lparr>index = ''3'',
      header = [text_node ''A'', text_node ''A''],
      rows = [\<lparr>cells = [text_node ''x'', text_node ''x'']\<rparr>,
              \<lparr>cells = [text_node ''x'', text_node ''x'']\<rparr>]\<rparr>"

definition empty_table :: "string Props" where
  "empty_table = \<lparr>index = ''0'', header = [], rows = []\<rparr>"

section \<open>Auxiliary facts\<close>

subsection \<open>\<open>Array_map\<close>\<close>

lemma length_Array_map: "length (Array_map f xs) = length xs"
  by (simp add: Array_map_def)

lemma nth_Array_map: "i < length xs \<Longrightarrow> Array_map f xs ! i = f (xs ! i) i"
  by (simp add: Array_map_def nth_enumerate_eq)

lemma Array_map_upt: "Array_map f xs = map (\<lambda>i. f (xs ! i) i) [0..<length xs]"
  by (rule nth_equalityI) (simp_all add: length_Array_map nth_Array_map)

lemma map_Array_map: "map g (Array_map f xs) = Array_map (\<lambda>x i. g (f x i)) xs"
  by (simp add: Array_map_def split_def)

lemma Array_map_const: "Array_map (\<lambda>x i. g x) xs = map g xs"
  by (rule nth_equalityI) (simp_all add: length_Array_map nth_Array_map)

lemma Array_map_position: "Array_map (\<lambda>x i. g i) xs = map g [0..<length xs]"
  by (rule nth_equalityI) (simp_all add: length_Array_map nth_Array_map)

lemma concat_Array_map_single: "concat (Array_map (\<lambda>x i. [f x i]) xs) = Array_map f xs"
  by (simp add: Array_map_def split_def concat_map_singleton)

lemma in_set_Array_map:
  "y \<in> set (Array_map f xs) \<Longrightarrow> \<exists>i<length xs. y = f (xs ! i) i"
  by (auto simp: Array_map_upt)

lemma distinct_Array_map:
  assumes "\<And>i j. i < j \<Longrightarrow> j < length xs \<Longrightarrow> f (xs ! i) i \<noteq> f (xs ! j) j"
  shows "distinct (Array_map f xs)"
  unfolding distinct_conv_nth length_Array_map
proof (intro allI impI)
  fix i j
  assume "i < length xs" "j < length xs" "i \<noteq> j"
  then show "Array_map f xs ! i \<noteq> Array_map f xs ! j"
    using assms[of i j] assms[of j i] by (cases "i < j") (auto simp: nth_Array_map)
qed

subsection \<open>Decimal strings\<close>

lemma digit_inj: "d < 10 \<Longrightarrow> e < 10 \<Longrightarrow> digit d = digit e \<Longrightarrow> d = e"
  by (simp add: digit_def char_of_eq_iff take_bit_nat_eq_self)

lemma hyphen_char: "CHR ''-'' = char_of (45::nat)"
  by code_simp

lemma digit_not_hyphen: "d < 10 \<Longrightarrow> digit d \<noteq> CHR ''-''"
  by (simp add: hyphen_char digit_def char_of_eq_iff take_bit_nat_eq_self)

lemma String_not_Nil: "String n \<noteq> []"
  by (subst String.simps) simp

lemma String_inj: "String m = String n \<Longrightarrow> m = n"
proof (induction m arbitrary: n rule: String.induct)
  case (1 m)
  show ?case
  proof (cases "m < 10")
    case m: True
    show ?thesis
    proof (cases "n < 10")
      case True
      with m "1.prems" show ?thesis
        by (simp add: String.simps[of m] String.simps[of n] digit_inj)
    next
      case False
      with m "1.prems" String_not_Nil[of "n div 10"] show ?thesis
        by (simp add: String.simps[of m] String.simps[of n])
    qed
  next
    case m: False
    show ?thesis
    proof (cases "n < 10")
      case True
      with m "1.prems" String_not_Nil[of "m div 10"] show ?thesis
        by (simp add: String.simps[of m] String.simps[of n])
    next
      case False
      with m "1.prems" have "String (m div 10) = String (n div 10)"
        and "digit (m mod 10) = digit (n mod 10)"
        by (simp_all add: String.simps[of m] String.simps[of n])
      with "1.IH"[OF m] have "m div 10 = n div 10" "m mod 10 = n mod 10"
        by (auto dest: digit_inj[rotated 2])
      then show ?thesis by (metis div_mult_mod_eq)
    qed
  qed
qed

lemma hyphen_notin_String: "CHR ''-'' \<notin> set (String n)"
proof (induction n rule: String.induct)
  case (1 n)
  show ?case
  proof (cases "n < 10")
    case True
    then show ?thesis
      using digit_not_hyphen[of n] by (simp add: String.simps[of n])
  next
    case False
    then show ?thesis
      using 1 digit_not_hyphen[of "n mod 10"] by (simp add: String.simps[of n])
  qed
qed

lemma distinct_map_String: "distinct xs \<Longrightarrow> distinct (map String xs)"
  by (simp add: distinct_map inj_on_def) (blast dest: String_inj)

subsection \<open>Keys: the text after the last hyphen is the column\<close>

lemma last_segment_eq:
  assumes "a @ CHR ''-'' # s = b @ CHR ''-'' # t"
    and "CHR ''-'' \<notin> set s" and "CHR ''-'' \<notin> set t"
  shows "s = t"
proof -
  let ?P = "\<lambda>c. c \<noteq> CHR ''-''"
  have "rev (a @ CHR ''-'' # s) = rev (b @ CHR ''-'' # t)"
    using assms(1) by simp
  then have "rev s @ CHR ''-'' # rev a = rev t @ CHR ''-'' # rev b"
    by simp
  then have "takeWhile ?P (rev s @ CHR ''-'' # rev a) = takeWhile ?P (rev t @ CHR ''-'' # rev b)"
    by simp
  moreover have "takeWhile ?P (rev s @ CHR ''-'' # rev a) = rev s"
    using assms(2) by (subst takeWhile_append2) auto
  moreover have "takeWhile ?P (rev t @ CHR ''-'' # rev b) = rev t"
    using assms(3) by (subst takeWhile_append2) auto
  ultimately show ?thesis by simp
qed

lemma header_key_inj: "a @ CHR ''-'' # String i = b @ CHR ''-'' # String j \<Longrightarrow> i = j"
  using last_segment_eq[of a "String i" b "String j"] hyphen_notin_String String_inj
  by simp

lemma body_key_inj:
  assumes "a @ CHR ''-'' # String i @ CHR ''-'' # String j =
           b @ CHR ''-'' # String i' @ CHR ''-'' # String j'"
  shows "i = i' \<and> j = j'"
proof -
  have eq: "(a @ CHR ''-'' # String i) @ CHR ''-'' # String j =
            (b @ CHR ''-'' # String i') @ CHR ''-'' # String j'"
    using assms by simp
  then have col: "String j = String j'"
    by (rule last_segment_eq) (rule hyphen_notin_String)+
  with eq have "a @ CHR ''-'' # String i = b @ CHR ''-'' # String i'"
    by simp
  then have "i = i'"
    by (rule header_key_inj)
  with col show ?thesis
    by (simp add: String_inj)
qed

lemma distinct_positions: "distinct (Array_map (\<lambda>x j. String j) xs)"
  by (simp add: Array_map_position distinct_map_String)

lemma distinct_some_positions: "distinct (Array_map (\<lambda>x j. Some (String j)) xs)"
  by (simp add: Array_map_position distinct_map inj_on_def) (blast dest: String_inj)

lemma distinct_header_keys: "distinct (Array_map (\<lambda>h i. type h @ ''-'' @ String i) hs)"
  by (rule distinct_Array_map) (auto dest: header_key_inj)

lemma distinct_body_keys:
  "distinct (Array_map (\<lambda>r j. type r @ ''-'' @ String i @ ''-'' @ String j) cs)"
  by (rule distinct_Array_map) (auto dest: body_key_inj)

subsection \<open>The shape of the rendered table\<close>

lemma header_group_Table:
  "header_group (Table props) =
     [Elem ''tr'' None ''divide-x divide-zinc-200 dark:divide-zinc-600''
        (Array_map th_cell (header props))]"
  by (simp add: header_group_def group_def Table_def)

lemma body_group_Table: "body_group (Table props) = Array_map tr_row (rows props)"
  by (simp add: body_group_def group_def Table_def)

lemma renderers_header_row:
  "renderers (Elem ''tr'' k c (Array_map th_cell hs)) =
     Array_map (\<lambda>h i. Renderer (type h @ ''-'' @ String i) (String i) h) hs"
  by (simp add: map_Array_map concat_Array_map_single)

lemma renderers_Table:
  "renderers (Table props) =
     Array_map (\<lambda>h i. Renderer (type h @ ''-'' @ String i) (String i) h) (header props) @
     concat (Array_map (\<lambda>row i.
        Array_map (\<lambda>r j. Renderer (type r @ ''-'' @ String i @ ''-'' @ String j) (String j) r)
          (cells row)) (rows props))"
  by (simp add: Table_def map_Array_map concat_Array_map_single)

text \<open>The \<^verbatim>\<open>Renderer\<close> elements of the body, by row and column position.\<close>

lemma distinct_positions_2d:
  "distinct rs \<Longrightarrow> (\<And>i. distinct (cs i)) \<Longrightarrow>
   distinct (concat (map (\<lambda>i. map (Pair i) (cs i)) rs))"
  by (induction rs) (auto simp: distinct_map inj_on_def)

lemma body_renderers_positions:
  "concat (map renderers (body_group (Table props))) =
     map (\<lambda>(i, j).
            Renderer (type (cells (rows props ! i) ! j) @ ''-'' @ String i @ ''-'' @ String j)
              (String j) (cells (rows props ! i) ! j))
       (concat (map (\<lambda>i. map (Pair i) [0..<length (cells (rows props ! i))])
          [0..<length (rows props)]))"
  by (simp add: body_group_Table map_Array_map concat_Array_map_single Array_map_upt
      map_concat comp_def)

lemma distinct_body_keys_all:
  "distinct (map rkey (concat (map renderers (body_group (Table props)))))"
  unfolding body_renderers_positions
  by (simp add: distinct_map distinct_positions_2d inj_on_def split_def)
     (auto dest: body_key_inj)

subsection \<open>Threading the input\<close>

lemma snd_map_run: "(\<And>x i. snd (f x i) = x) \<Longrightarrow> snd (map_run f k xs) = xs"
  by (induction xs arbitrary: k) (simp_all add: split_def Let_def)

lemma fst_map_run: "fst (map_run f k xs) = map (\<lambda>(i, x). fst (f x i)) (enumerate k xs)"
  by (induction xs arbitrary: k) (simp_all add: split_def Let_def)

lemma fst_map_run_0: "fst (map_run f 0 xs) = Array_map (\<lambda>x i. fst (f x i)) xs"
  by (simp add: fst_map_run Array_map_def)

text \<open>The threaded component builds the same element tree as \<open>Table\<close>.\<close>

lemma fst_Table_run: "fst (Table_run props) = Table props"
  by (simp add: Table_run_def Table_def split_def Let_def fst_map_run_0)

subsection \<open>The node renderer: outputs and nodes\<close>

lemma render_counts:
  "output_count (render n ix) = node_count n"
  "sum_list (map output_count (render_children cs ix' pos)) = sum_list (map node_count cs)"
  "sum_list (map (\<lambda>row. sum_list (map output_count row)) (render_rows rs ix'' r)) =
     sum_list (map (\<lambda>row. sum_list (map node_count row)) rs)"
  by (induction n ix and cs ix' pos and rs ix'' r
      rule: render_render_children_render_rows.induct) simp_all

section \<open>Properties\<close>

text \<open>
  C1 (as the specification states it). Within one render pass no two nodes receive the
  same index.  This fails: the index handed to \<^verbatim>\<open>Renderer\<close> is \<^verbatim>\<open>String(i)\<close> for a header
  cell and \<^verbatim>\<open>String(j)\<close> for a body cell, the column alone, so in the table with two
  header cells and two rows of two cells the indices are 0, 1, 0, 1, 0, 1.
\<close>

theorem Table_index_collision_counterexample:
  "\<not> distinct (map rindex (renderers (Table twin_table)))"
  by code_simp

text \<open>
  C1 (amended). Within one rendered row, the header row or any body row, no two cells
  receive the same index, also when the cells of the row are identical.  The index of a
  cell is derived from its column only: the header cell at position \<open>i\<close> receives
  \<^verbatim>\<open>String(i)\<close> and the body cell at column \<open>j\<close> of any row receives \<^verbatim>\<open>String(j)\<close>, so an
  index may recur in another row and in the header.  What is derived from row and column
  together is the key of a body cell's \<^verbatim>\<open>Renderer\<close> element, the node type followed by the
  row \<open>i\<close> and the column \<open>j\<close>, and no two body cells of the table share that key.
\<close>

theorem Table_row_indices_distinct:
  "(\<forall>row \<in> set (header_group (Table props) @ body_group (Table props)).
      distinct (map rindex (renderers row))) \<and>
   map (map rindex \<circ> renderers) (header_group (Table props)) =
     [map String [0..<length (header props)]] \<and>
   map (map rindex \<circ> renderers) (body_group (Table props)) =
     map (\<lambda>row. map String [0..<length (cells row)]) (rows props) \<and>
   map (map rkey \<circ> renderers) (body_group (Table props)) =
     Array_map (\<lambda>row i.
        Array_map (\<lambda>r j. type r @ ''-'' @ String i @ ''-'' @ String j) (cells row))
       (rows props) \<and>
   distinct (map rkey (concat (map renderers (body_group (Table props)))))"
proof (intro conjI)
  show "\<forall>row \<in> set (header_group (Table props) @ body_group (Table props)).
      distinct (map rindex (renderers row))"
  proof
    fix row
    assume "row \<in> set (header_group (Table props) @ body_group (Table props))"
    then consider "row \<in> set (header_group (Table props))"
      | "row \<in> set (body_group (Table props))"
      by auto
    then show "distinct (map rindex (renderers row))"
    proof cases
      case 1
      then show ?thesis
        by (simp add: header_group_Table map_Array_map concat_Array_map_single
            distinct_positions)
    next
      case 2
      then obtain i where "row = tr_row (rows props ! i) i"
        unfolding body_group_Table by (blast dest: in_set_Array_map)
      then show ?thesis
        by (simp add: map_Array_map concat_Array_map_single distinct_positions)
    qed
  qed
  show "map (map rindex \<circ> renderers) (header_group (Table props)) =
      [map String [0..<length (header props)]]"
    by (simp add: header_group_Table map_Array_map concat_Array_map_single
        Array_map_position)
  show "map (map rindex \<circ> renderers) (body_group (Table props)) =
      map (\<lambda>row. map String [0..<length (cells row)]) (rows props)"
    by (simp add: body_group_Table map_Array_map concat_Array_map_single
        Array_map_position Array_map_const)
  show "map (map rkey \<circ> renderers) (body_group (Table props)) =
      Array_map (\<lambda>row i.
         Array_map (\<lambda>r j. type r @ ''-'' @ String i @ ''-'' @ String j) (cells row))
        (rows props)"
    by (simp add: body_group_Table map_Array_map concat_Array_map_single)
  show "distinct (map rkey (concat (map renderers (body_group (Table props)))))"
    by (rule distinct_body_keys_all)
qed

theorem Table_row_indices_distinct_witness:
  "body_group (Table twin_table) ! 1
     \<in> set (header_group (Table twin_table) @ body_group (Table twin_table)) \<and>
   map node (renderers (body_group (Table twin_table) ! 1)) = [text_node ''x'', text_node ''x''] \<and>
   map rindex (renderers (body_group (Table twin_table) ! 1)) = [''0'', ''1''] \<and>
   distinct (map rindex (renderers (body_group (Table twin_table) ! 1))) \<and>
   map rkey (concat (map renderers (body_group (Table twin_table)))) =
     [''TEXT-0-0'', ''TEXT-0-1'', ''TEXT-1-0'', ''TEXT-1-1'']"
proof -
  have "body_group (Table twin_table) ! 1
          \<in> set (header_group (Table twin_table) @ body_group (Table twin_table))"
    by code_simp
  moreover have "map node (renderers (body_group (Table twin_table) ! 1)) =
      [text_node ''x'', text_node ''x'']"
    by code_simp
  moreover have "map rindex (renderers (body_group (Table twin_table) ! 1)) = [''0'', ''1'']"
    by code_simp
  moreover have "map rkey (concat (map renderers (body_group (Table twin_table)))) =
      [''TEXT-0-0'', ''TEXT-0-1'', ''TEXT-1-0'', ''TEXT-1-1'']"
    by code_simp
  ultimately show ?thesis
    using Table_row_indices_distinct [of twin_table, THEN conjunct1] by blast
qed

text \<open>
  C2 (as the specification states it). The table renderer composes its own index into the
  indices of its cells, as in \<^verbatim>\<open>parentIndex + "." + childPosition\<close>.  This fails: the
  table at index 7 hands its first header cell the index 0, not 7.0, and the indices it
  hands out are those of the same table at index 8.
\<close>

theorem Table_index_not_composed_counterexample:
  "rindex (hd (renderers (Table ragged_table))) = ''0'' \<and>
   rindex (hd (renderers (Table ragged_table))) \<noteq> index ragged_table @ ''.'' @ String 0 \<and>
   map rindex (renderers (Table ragged_table)) =
     map rindex (renderers (Table (ragged_table\<lparr>index := ''8''\<rparr>)))"
  by code_simp

text \<open>
  C2 (amended). The table renderer derives the index of a cell from the cell's position in
  its row alone: the header cell at position \<open>i\<close> is rendered with index \<^verbatim>\<open>String(i)\<close>, the
  body cell at column \<open>j\<close> of any row with index \<^verbatim>\<open>String(j)\<close>, whatever the table's own
  index.
\<close>

theorem Table_indices_local:
  "map (map rindex \<circ> renderers) (header_group (Table props)) =
     [map String [0..<length (header props)]] \<and>
   map (map rindex \<circ> renderers) (body_group (Table props)) =
     map (\<lambda>row. map String [0..<length (cells row)]) (rows props)"
  by (simp add: header_group_Table body_group_Table map_Array_map concat_Array_map_single
      Array_map_position Array_map_const)

text \<open>
  C3. For every header list and row list the component returns a table (it has no failing
  path) whose header group is one row of as many cells as the header has nodes and whose
  body group has as many rows as the input, each rendered row with exactly as many cells
  as that input row has: a ragged row is neither padded nor truncated.
\<close>

theorem Table_group_lengths:
  "map (length \<circ> kids) (header_group (Table props)) = [length (header props)] \<and>
   length (body_group (Table props)) = length (rows props) \<and>
   map (length \<circ> kids) (body_group (Table props)) = map (length \<circ> cells) (rows props)"
  by (simp add: header_group_Table body_group_Table length_Array_map map_Array_map
      Array_map_const)

text \<open>
  C4 (as the specification states it). With an empty header no header row is emitted.
  This fails: the \<^verbatim>\<open>tr\<close> inside \<^verbatim>\<open>thead\<close> is written unconditionally, so the header group
  of the empty table is not empty.
\<close>

theorem Table_empty_header_row_counterexample:
  "header_group (Table empty_table) \<noteq> []"
  by (simp add: header_group_Table)

text \<open>
  C4 (amended). With an empty header the header group consists of exactly one row, and
  that row has no cells; with an empty row list the body group is empty, no row is
  emitted.
\<close>

theorem Table_empty_groups:
  "header_group (Table \<lparr>index = ix, header = [], rows = rs\<rparr>) =
     [Elem ''tr'' None ''divide-x divide-zinc-200 dark:divide-zinc-600'' []] \<and>
   body_group (Table \<lparr>index = ix, header = hs, rows = []\<rparr>) = []"
  by (simp add: header_group_Table body_group_Table Array_map_def)

text \<open>
  C5. Rendering is an order-preserving projection: the nodes rendered in the header row
  are the header nodes in input order, the rendered rows correspond to the input rows in
  input order, and the nodes rendered in each row are that row's cells in input order;
  nothing is sorted, dropped or merged.
\<close>

theorem Table_order_preserving:
  "map (map node \<circ> renderers) (header_group (Table props)) = [header props] \<and>
   map (map node \<circ> renderers) (body_group (Table props)) = map cells (rows props)"
  by (simp add: header_group_Table body_group_Table renderers_header_row
      map_Array_map Array_map_const concat_Array_map_single)

text \<open>
  C6. The rendered table is determined by the header and the rows: two render passes
  given the same header and the same rows return the same element tree, with the same
  shape, content, keys and indices.
\<close>

theorem Table_deterministic:
  "header p = header q \<Longrightarrow> rows p = rows q \<Longrightarrow> Table p = Table q"
  by (simp add: Table_def)

theorem Table_deterministic_witness:
  "header ragged_table = header (ragged_table\<lparr>index := ''8''\<rparr>) \<and>
   rows ragged_table = rows (ragged_table\<lparr>index := ''8''\<rparr>) \<and>
   Table ragged_table = Table (ragged_table\<lparr>index := ''8''\<rparr>)"
  using Table_deterministic [of ragged_table "ragged_table\<lparr>index := ''8''\<rparr>"] by simp

text \<open>
  C7. The node renderer, a structural recursion and hence total on every node tree of
  whatever depth, produces exactly one output per input node; and the table component,
  in its single pass, hands exactly one \<^verbatim>\<open>Renderer\<close> element to every header node and
  every body cell: the nodes of the \<^verbatim>\<open>Renderer\<close> elements, in document order, are the
  header nodes followed by the cells of the rows, each once.
\<close>

theorem render_one_output_per_node:
  "output_count (render n ix) = node_count n \<and>
   map node (renderers (Table props)) = header props @ concat (map cells (rows props))"
  by (simp add: render_counts renderers_Table map_Array_map Array_map_const map_concat)

text \<open>
  C8. A render pass leaves its input as it found it: the props after the pass, header
  nodes and rows included, are the props before it.
\<close>

theorem Table_input_unchanged: "snd (Table_run props) = props"
  by (simp add: Table_run_def split_def Let_def snd_map_run)

text \<open>
  C9. The output of the component does not depend on its \<open>index\<close> prop: two invocations
  that differ only in the value of \<open>index\<close> produce the same element tree.
\<close>

theorem Table_index_irrelevant:
  "Table \<lparr>index = ix, header = hs, rows = rs\<rparr> = Table \<lparr>index = ix', header = hs, rows = rs\<rparr>"
  by (simp add: Table_def)

text \<open>
  C10. Within any single rendered row the cell identifiers are pairwise distinct, also
  when the nodes of two sibling cells are identical: the key of the \<^verbatim>\<open>th\<close> (\<^verbatim>\<open>td\<close>)
  element at column \<open>i\<close> (\<open>j\<close>) is that position, the key of a header cell's \<^verbatim>\<open>Renderer\<close>
  element is the node type followed by the column \<open>i\<close>, and that of a body cell's by the
  row \<open>i\<close> and the column \<open>j\<close>.
\<close>

theorem Table_row_keys_distinct:
  "(\<forall>row \<in> set (header_group (Table props) @ body_group (Table props)).
      distinct (map key (kids row)) \<and> distinct (map rkey (renderers row))) \<and>
   map (map key \<circ> kids) (header_group (Table props)) =
     [Array_map (\<lambda>h i. Some (String i)) (header props)] \<and>
   map (map rkey \<circ> renderers) (header_group (Table props)) =
     [Array_map (\<lambda>h i. type h @ ''-'' @ String i) (header props)] \<and>
   map (map key \<circ> kids) (body_group (Table props)) =
     Array_map (\<lambda>row i. Array_map (\<lambda>r j. Some (String j)) (cells row)) (rows props) \<and>
   map (map rkey \<circ> renderers) (body_group (Table props)) =
     Array_map (\<lambda>row i.
        Array_map (\<lambda>r j. type r @ ''-'' @ String i @ ''-'' @ String j) (cells row))
       (rows props)"
proof (intro conjI)
  show "\<forall>row \<in> set (header_group (Table props) @ body_group (Table props)).
      distinct (map key (kids row)) \<and> distinct (map rkey (renderers row))"
  proof
    fix row
    assume "row \<in> set (header_group (Table props) @ body_group (Table props))"
    then consider "row \<in> set (header_group (Table props))"
      | "row \<in> set (body_group (Table props))"
      by auto
    then show "distinct (map key (kids row)) \<and> distinct (map rkey (renderers row))"
    proof cases
      case 1
      then show ?thesis
        using distinct_header_keys[of "header props"]
        by (simp add: header_group_Table map_Array_map concat_Array_map_single
            distinct_some_positions)
    next
      case 2
      then obtain i where "row = tr_row (rows props ! i) i"
        unfolding body_group_Table by (blast dest: in_set_Array_map)
      then show ?thesis
        using distinct_body_keys[of i "cells (rows props ! i)"]
        by (simp add: map_Array_map concat_Array_map_single distinct_some_positions)
    qed
  qed
qed (simp_all add: header_group_Table body_group_Table map_Array_map concat_Array_map_single)

theorem Table_row_keys_distinct_witness:
  "body_group (Table twin_table) ! 0
     \<in> set (header_group (Table twin_table) @ body_group (Table twin_table)) \<and>
   map node (renderers (body_group (Table twin_table) ! 0)) = [text_node ''x'', text_node ''x''] \<and>
   map key (kids (body_group (Table twin_table) ! 0)) = [Some ''0'', Some ''1''] \<and>
   map rkey (renderers (body_group (Table twin_table) ! 0)) = [''TEXT-0-0'', ''TEXT-0-1''] \<and>
   distinct (map key (kids (body_group (Table twin_table) ! 0))) \<and>
   distinct (map rkey (renderers (body_group (Table twin_table) ! 0)))"
proof -
  have "body_group (Table twin_table) ! 0
          \<in> set (header_group (Table twin_table) @ body_group (Table twin_table))"
    by code_simp
  moreover have "map node (renderers (body_group (Table twin_table) ! 0)) =
      [text_node ''x'', text_node ''x'']"
    by code_simp
  moreover have "map key (kids (body_group (Table twin_table) ! 0)) = [Some ''0'', Some ''1'']"
    by code_simp
  moreover have "map rkey (renderers (body_group (Table twin_table) ! 0)) =
      [''TEXT-0-0'', ''TEXT-0-1'']"
    by code_simp
  ultimately show ?thesis
    using Table_row_keys_distinct [of twin_table] by blast
qed

end
